theory Spec2Isabelle
  imports Main "HOL-Library.Word"
begin

unbundle bit_operations_syntax

section \<open>Signal mask management: \<open>sched/signal/sig_procmask.c\<close>\<close>

text \<open>
  The file defines two functions, \<open>nxsig_procmask\<close> (the kernel-internal form, which
  returns a negated errno value) and \<open>sigprocmask\<close> (the application form, which
  returns \<open>ERROR\<close> and sets \<open>errno\<close>). Both act on the task control block of the
  calling task, \<open>this_task()\<close>.

  The headers the file includes are not part of the sources at hand. What the code
  takes from them is handled as follows.
  \<^item> \<open>sigset_t\<close> is an integer type on which the code uses \<open>|\<close>, \<open>&\<close> and \<open>~\<close>. It is a
    machine word \<open>'a word\<close> of unspecified width \<open>LENGTH('a)\<close>; bit \<open>n\<close> of a set stands
    for one signal.
  \<^item> \<open>SIG_BLOCK\<close>, \<open>SIG_UNBLOCK\<close>, \<open>SIG_SETMASK\<close> and \<open>EINVAL\<close> are parameters, collected
    in the record \<open>signal_h\<close>. C requires the labels of one \<open>switch\<close> to be distinct,
    and errno values are positive: \<open>signal_h_ok\<close>.
  \<^item> \<open>OK\<close> is 0 and \<open>ERROR\<close> is -1, as the comments of the two functions say
    (``Zero (OK) is returned on success'', ``-1 (ERROR) if how is invalid'').
  \<^item> The parameters \<open>set\<close> and \<open>oset\<close> are pointers to \<open>sigset_t\<close> objects of the caller.
    These objects live in a memory \<open>addr \<Rightarrow> 'a sigset_t\<close>; a pointer is \<open>None\<close> when
    \<open>NULL\<close> and \<open>Some a\<close> when it points to the object at address \<open>a\<close>. Neither
    parameter is \<open>restrict\<close>-qualified, so both may point to the same object. The task
    control block is kernel state and not an object of this memory.
  \<^item> \<open>int\<close> is modelled by the integers. The only arithmetic on an \<open>int\<close> is the
    negation of \<open>EINVAL\<close> and of the negative return value, neither of which can
    overflow for a positive \<open>EINVAL\<close>.
\<close>

subsection \<open>Data\<close>

type_synonym 'a sigset_t = "'a word"

type_synonym addr = nat

type_synonym 'a memory = "addr \<Rightarrow> 'a sigset_t"

record signal_h =
  SIG_BLOCK :: int
  SIG_UNBLOCK :: int
  SIG_SETMASK :: int
  EINVAL :: int

definition signal_h_ok :: "signal_h \<Rightarrow> bool" where
  "signal_h_ok c \<longleftrightarrow>
     distinct [SIG_BLOCK c, SIG_UNBLOCK c, SIG_SETMASK c] \<and> 0 < EINVAL c"

definition OK :: int where
  "OK = 0"

definition ERROR :: int where
  "ERROR = - 1"

text \<open>
  \<open>struct tcb_s\<close>, restricted to the signal state of a task. The field
  \<open>sigprocmask\<close> of the source is \<open>tcb_sigprocmask\<close> here, since the name
  \<open>sigprocmask\<close> is taken by the function. The set of pending signals is not touched
  by \<open>sig_procmask.c\<close>; it is the \<open>pending\<close> set of the specification's data model,
  read and cleared by the dispatcher only. The record is generic in the type \<open>'s\<close> of
  signal sets, which is \<open>'a sigset_t\<close> throughout.
\<close>

record 's tcb_s =
  tcb_sigprocmask :: 's
  tcb_sigpending :: 's

text \<open>The calls the two functions make to the rest of the kernel, in the order made.\<close>

datatype call =
    Sched_lock
  | Enter_critical_section
  | Leave_critical_section
  | Nxsig_unmask_pendingsignal
  | Sched_unlock
  | Set_errno

text \<open>
  The part of the kernel state the two functions read or write, directly or through
  the functions they call: the calling task's control block (\<open>rtcb\<close>), its errno
  value, the scheduler lock count, the interrupt enable state, the sets of signals
  delivered by each run of the dispatcher, and the trace of calls.
\<close>

record 's kernel =
  rtcb :: "'s tcb_s"
  errno :: int
  lockcount :: nat
  irq_enabled :: bool
  delivered :: "'s list"
  calls :: "call list"

type_synonym 'a state = "'a sigset_t kernel"

subsection \<open>The functions called\<close>

text \<open>
  Modelled from the spec: \<open>sched_lock\<close> and \<open>sched_unlock\<close> (the Scheduler Lock, ``a
  reentrant, per-task preemption-disable primitive (a counted lock held by the
  calling task)''; ``Unlocking drops the count'').
\<close>

definition sched_lock :: "'a state \<Rightarrow> 'a state" where
  "sched_lock st = st\<lparr>lockcount := Suc (lockcount st), calls := calls st @ [Sched_lock]\<rparr>"

definition sched_unlock :: "'a state \<Rightarrow> 'a state" where
  "sched_unlock st = st\<lparr>lockcount := lockcount st - 1, calls := calls st @ [Sched_unlock]\<rparr>"

text \<open>
  Modelled from the spec: \<open>enter_critical_section\<close> and \<open>leave_critical_section\<close> (the
  Critical Section: ``Entering it disables interrupt delivery to the calling core
  [...]; leaving restores the prior state. Returns an opaque token capturing prior
  interrupt state'').
\<close>

definition enter_critical_section :: "'a state \<Rightarrow> bool \<times> 'a state" where
  "enter_critical_section st =
     (irq_enabled st,
      st\<lparr>irq_enabled := False, calls := calls st @ [Enter_critical_section]\<rparr>)"

definition leave_critical_section :: "bool \<Rightarrow> 'a state \<Rightarrow> 'a state" where
  "leave_critical_section flags st =
     st\<lparr>irq_enabled := flags, calls := calls st @ [Leave_critical_section]\<rparr>"

text \<open>
  Modelled from the spec: \<open>nxsig_unmask_pendingsignal\<close> (the Pending-Signal
  Dispatcher: ``given the task's current mask and pending set, delivers
  (synchronously, before returning control) any pending signal not in the mask'';
  pending ``entries are cleared [...] as the dispatcher delivers them''). One run
  delivers the pending signals that are not blocked, records them as one entry of
  \<open>delivered\<close>, and keeps pending the blocked ones. The handlers the delivery runs
  are outside the model.
\<close>

definition nxsig_unmask_pendingsignal :: "'a::len state \<Rightarrow> 'a state" where
  "nxsig_unmask_pendingsignal st =
     (let tcb = rtcb st;
          unmasked = tcb_sigpending tcb AND NOT (tcb_sigprocmask tcb)
      in st\<lparr>rtcb := tcb\<lparr>tcb_sigpending := tcb_sigpending tcb AND tcb_sigprocmask tcb\<rparr>,
            delivered := delivered st @ [unmasked],
            calls := calls st @ [Nxsig_unmask_pendingsignal]\<rparr>)"

text \<open>Modelled from the spec: \<open>set_errno\<close> (the ``global last-error indicator'').\<close>

definition set_errno :: "int \<Rightarrow> 'a state \<Rightarrow> 'a state" where
  "set_errno e st = st\<lparr>errno := e, calls := calls st @ [Set_errno]\<rparr>"

subsection \<open>\<open>nxsig_procmask\<close>\<close>

text \<open>
  Lines 116 to 119: the old mask is stored through \<open>oset\<close> unless \<open>oset\<close> is \<open>NULL\<close>.
\<close>

definition store_oset :: "addr option \<Rightarrow> 'a sigset_t \<Rightarrow> 'a memory \<Rightarrow> 'a memory" where
  "store_oset oset oldsigprocmask mem =
     (case oset of None \<Rightarrow> mem | Some q \<Rightarrow> mem(q := oldsigprocmask))"

text \<open>
  The \<open>switch (how)\<close> of lines 133 to 160, run inside the critical section: the new
  return value and the new state. Each branch reads \<open>*set\<close>, the object at \<open>p\<close>, from
  the memory as it is at that point.
\<close>

definition procmask_switch ::
  "signal_h \<Rightarrow> int \<Rightarrow> addr \<Rightarrow> 'a::len memory \<Rightarrow> int \<Rightarrow> 'a state \<Rightarrow> int \<times> 'a state" where
  "procmask_switch c how p mem ret st =
     (if how = SIG_BLOCK c then
        (ret, st\<lparr>rtcb := (rtcb st)\<lparr>tcb_sigprocmask := tcb_sigprocmask (rtcb st) OR mem p\<rparr>\<rparr>)
      else if how = SIG_UNBLOCK c then
        (ret,
         st\<lparr>rtcb := (rtcb st)\<lparr>tcb_sigprocmask := tcb_sigprocmask (rtcb st) AND NOT (mem p)\<rparr>\<rparr>)
      else if how = SIG_SETMASK c then
        (ret, st\<lparr>rtcb := (rtcb st)\<lparr>tcb_sigprocmask := mem p\<rparr>\<rparr>)
      else
        (- EINVAL c, st))"

text \<open>
  The function, in the order of the source: the store through \<open>oset\<close> comes first,
  the \<open>switch\<close> reads \<open>*set\<close> afterwards. The parameter \<open>set\<close> is \<open>sset\<close> here. The
  result is the return value, the memory of the caller and the kernel state at the
  return.
\<close>

definition nxsig_procmask ::
  "signal_h \<Rightarrow> int \<Rightarrow> addr option \<Rightarrow> addr option \<Rightarrow> 'a::len memory \<Rightarrow> 'a state
     \<Rightarrow> int \<times> 'a memory \<times> 'a state" where
  "nxsig_procmask c how sset oset mem st =
     (let ret = OK;
          st = sched_lock st;
          oldsigprocmask = tcb_sigprocmask (rtcb st);
          mem = store_oset oset oldsigprocmask mem;
          (ret, st) =
            (case sset of
               None \<Rightarrow> (ret, st)
             | Some p \<Rightarrow>
                 (let (flags, st) = enter_critical_section st;
                      (ret, st) = procmask_switch c how p mem ret st;
                      st = leave_critical_section flags st;
                      st = nxsig_unmask_pendingsignal st
                  in (ret, st)));
          st = sched_unlock st
      in (ret, mem, st))"

subsection \<open>\<open>sigprocmask\<close>\<close>

definition sigprocmask ::
  "signal_h \<Rightarrow> int \<Rightarrow> addr option \<Rightarrow> addr option \<Rightarrow> 'a::len memory \<Rightarrow> 'a state
     \<Rightarrow> int \<times> 'a memory \<times> 'a state" where
  "sigprocmask c how sset oset mem st =
     (let (ret, mem, st) = nxsig_procmask c how sset oset mem st
      in if ret < 0 then (ERROR, mem, set_errno (- ret) st) else (ret, mem, st))"

text \<open>The three components of a result.\<close>

definition ret_of :: "int \<times> 'a memory \<times> 'a state \<Rightarrow> int" where
  "ret_of r = fst r"

definition mem_of :: "int \<times> 'a memory \<times> 'a state \<Rightarrow> 'a memory" where
  "mem_of r = fst (snd r)"

definition kernel_of :: "int \<times> 'a memory \<times> 'a state \<Rightarrow> 'a state" where
  "kernel_of r = snd (snd r)"

definition mask_of :: "int \<times> 'a memory \<times> 'a state \<Rightarrow> 'a sigset_t" where
  "mask_of r = tcb_sigprocmask (rtcb (kernel_of r))"

subsection \<open>Observations on a call\<close>

text \<open>
  Signal \<open>n\<close> is delivered between the states \<open>st\<close> and \<open>st'\<close> when a run of the
  dispatcher made after \<open>st\<close> has delivered a set that holds it.
\<close>

definition delivered_by_call :: "'a::len state \<Rightarrow> 'a state \<Rightarrow> nat \<Rightarrow> bool" where
  "delivered_by_call st st' n \<longleftrightarrow>
     list_ex (\<lambda>d. bit d n) (drop (length (delivered st)) (delivered st'))"

text \<open>The number of runs of the dispatcher between the states \<open>st\<close> and \<open>st'\<close>.\<close>

definition dispatcher_runs :: "'a state \<Rightarrow> 'a state \<Rightarrow> nat" where
  "dispatcher_runs st st' =
     count_list (drop (length (calls st)) (calls st')) Nxsig_unmask_pendingsignal"

subsection \<open>An example configuration\<close>

text \<open>
  Values for the constants; a state of a task on 32-bit signal sets, in which the
  signals of bits 0 and 2 are blocked and those of bits 2 and 3 are pending; and a
  memory whose objects at the addresses 0 to 4 hold the sets 3, 2, 4, 8 and 10.
\<close>

definition example_h :: signal_h where
  "example_h = \<lparr>SIG_BLOCK = 1, SIG_UNBLOCK = 2, SIG_SETMASK = 3, EINVAL = 22\<rparr>"

definition example_state :: "32 state" where
  "example_state =
     \<lparr>rtcb = \<lparr>tcb_sigprocmask = 5, tcb_sigpending = 12\<rparr>, errno = 11, lockcount = 0,
      irq_enabled = True, delivered = [], calls = []\<rparr>"

definition example_mem :: "32 memory" where
  "example_mem = (\<lambda>a. 0)(0 := 3, 1 := 2, 2 := 4, 3 := 8, 4 := 10)"

section \<open>Properties\<close>

subsection \<open>The result of a call, component by component\<close>

lemmas callee_defs = sched_lock_def sched_unlock_def enter_critical_section_def
  leave_critical_section_def nxsig_unmask_pendingsignal_def set_errno_def
lemmas result_defs = ret_of_def mem_of_def kernel_of_def mask_of_def
lemmas example_defs = example_h_def example_state_def example_mem_def

text \<open>Without a new set the call only takes and releases the scheduler lock.\<close>

lemma nxsig_procmask_None:
  "nxsig_procmask c how None oset mem st =
     (OK, store_oset oset (tcb_sigprocmask (rtcb st)) mem,
      st\<lparr>calls := calls st @ [Sched_lock, Sched_unlock]\<rparr>)"
  by (simp add: nxsig_procmask_def Let_def callee_defs)

text \<open>With a new set the call is the composition of the steps of lines 129 to 169.\<close>

lemma nxsig_procmask_Some:
  "nxsig_procmask c how (Some p) oset mem st =
     (fst (procmask_switch c how p (store_oset oset (tcb_sigprocmask (rtcb st)) mem) OK st),
      store_oset oset (tcb_sigprocmask (rtcb st)) mem,
      sched_unlock (nxsig_unmask_pendingsignal (leave_critical_section (irq_enabled st)
        (snd (procmask_switch c how p (store_oset oset (tcb_sigprocmask (rtcb st)) mem) OK
          (snd (enter_critical_section (sched_lock st))))))))"
  by (simp add: nxsig_procmask_def Let_def callee_defs procmask_switch_def split: prod.splits)

lemma ret_nxsig_procmask:
  "ret_of (nxsig_procmask c how sset oset mem st) =
     (case sset of None \<Rightarrow> OK
      | Some p \<Rightarrow> if how \<in> {SIG_BLOCK c, SIG_UNBLOCK c, SIG_SETMASK c} then OK else - EINVAL c)"
  by (cases sset)
    (simp_all add: nxsig_procmask_None nxsig_procmask_Some procmask_switch_def ret_of_def)

text \<open>The calls made after the \<open>switch\<close> leave the mask as the \<open>switch\<close> set it.\<close>

lemma mask_nxsig_procmask:
  "mask_of (nxsig_procmask c how (Some p) oset mem st) =
     tcb_sigprocmask (rtcb (snd (procmask_switch c how p
       (store_oset oset (tcb_sigprocmask (rtcb st)) mem) OK st)))"
  by (simp add: nxsig_procmask_Some procmask_switch_def callee_defs result_defs Let_def)

lemma mem_nxsig_procmask:
  "mem_of (nxsig_procmask c how sset oset mem st) =
     store_oset oset (tcb_sigprocmask (rtcb st)) mem"
  by (cases sset) (simp_all add: nxsig_procmask_None nxsig_procmask_Some mem_of_def)

text \<open>
  What the \<open>switch\<close> reads as \<open>*set\<close>: the set the caller supplied, unless \<open>oset\<close> points
  to the same object, which then holds the old mask.
\<close>

lemma store_oset_read:
  "store_oset oset v mem p = (if oset = Some p then v else mem p)"
  by (cases oset) (auto simp: store_oset_def)

lemma calls_nxsig_procmask:
  "calls (kernel_of (nxsig_procmask c how sset oset mem st)) =
     calls st @
     (case sset of None \<Rightarrow> [Sched_lock, Sched_unlock]
      | Some p \<Rightarrow> [Sched_lock, Enter_critical_section, Leave_critical_section,
          Nxsig_unmask_pendingsignal, Sched_unlock])"
  by (cases sset)
    (simp_all add: nxsig_procmask_None nxsig_procmask_Some procmask_switch_def callee_defs
      result_defs Let_def)

lemma delivered_nxsig_procmask:
  "delivered (kernel_of (nxsig_procmask c how (Some p) oset mem st)) =
     delivered st @
       [tcb_sigpending (rtcb st) AND NOT (mask_of (nxsig_procmask c how (Some p) oset mem st))]"
  by (simp add: nxsig_procmask_Some procmask_switch_def callee_defs result_defs Let_def)

lemma pending_nxsig_procmask:
  "tcb_sigpending (rtcb (kernel_of (nxsig_procmask c how (Some p) oset mem st))) =
     tcb_sigpending (rtcb st) AND mask_of (nxsig_procmask c how (Some p) oset mem st)"
  by (simp add: nxsig_procmask_Some procmask_switch_def callee_defs result_defs Let_def)


text \<open>
  When \<open>set\<close> and \<open>oset\<close> point to the same object, the \<open>switch\<close> combines the mask
  with itself: \<open>SIG_BLOCK\<close> and \<open>SIG_SETMASK\<close> leave the mask as it was, \<open>SIG_UNBLOCK\<close>
  empties it.
\<close>

lemma nxsig_procmask_same_object:
  assumes "signal_h_ok c"
  shows "mask_of (nxsig_procmask c (SIG_BLOCK c) (Some p) (Some p) mem st) =
           tcb_sigprocmask (rtcb st)"
    and "mask_of (nxsig_procmask c (SIG_UNBLOCK c) (Some p) (Some p) mem st) = 0"
    and "mask_of (nxsig_procmask c (SIG_SETMASK c) (Some p) (Some p) mem st) =
           tcb_sigprocmask (rtcb st)"
  using assms
  by (simp_all add: mask_nxsig_procmask procmask_switch_def store_oset_read signal_h_ok_def)

subsection \<open>The mask after a call\<close>

text \<open>
  Claim C1, as stated: for every initial mask \<open>M\<close> and every supplied set \<open>S\<close>, the
  mask after \<open>nxsig_procmask\<close> is \<open>M \<union> S\<close> for \<open>SIG_BLOCK\<close>, \<open>M \<inter> \<not>S\<close> for \<open>SIG_UNBLOCK\<close>
  and \<open>S\<close> for \<open>SIG_SETMASK\<close>. It fails when \<open>oset\<close> points to the object \<open>set\<close> points
  to. From the mask 5: with the supplied set 3 \<open>SIG_SETMASK\<close> leaves the mask 5, not 3;
  with the supplied set 2 \<open>SIG_BLOCK\<close> leaves the mask 5, not 7; with the supplied set
  4 \<open>SIG_UNBLOCK\<close> leaves the mask 0, not 1.
\<close>

theorem nxsig_procmask_mask_laws_counterexample:
  "tcb_sigprocmask (rtcb example_state) = 5 \<and>
   example_mem 0 = 3 \<and>
   mask_of (nxsig_procmask example_h (SIG_SETMASK example_h) (Some 0) (Some 0)
     example_mem example_state) = 5 \<and>
   (5 :: 32 word) \<noteq> 3 \<and>
   example_mem 1 = 2 \<and>
   mask_of (nxsig_procmask example_h (SIG_BLOCK example_h) (Some 1) (Some 1)
     example_mem example_state) = 5 \<and>
   (5 :: 32 word) \<noteq> 5 OR 2 \<and>
   example_mem 2 = 4 \<and>
   mask_of (nxsig_procmask example_h (SIG_UNBLOCK example_h) (Some 2) (Some 2)
     example_mem example_state) = 0 \<and>
   (0 :: 32 word) \<noteq> 5 AND NOT 4"
  by (simp add: mask_nxsig_procmask procmask_switch_def store_oset_read example_defs)

text \<open>
  Claim C1, amended: for every initial mask \<open>M\<close> and every supplied set \<open>S\<close>, when
  \<open>oset\<close> is \<open>NULL\<close> or points to an object other than the one \<open>set\<close> points to, the
  mask of the calling task after \<open>nxsig_procmask\<close> is \<open>M \<union> S\<close> for \<open>SIG_BLOCK\<close>,
  \<open>M \<inter> \<not>S\<close> for \<open>SIG_UNBLOCK\<close>, and \<open>S\<close> for \<open>SIG_SETMASK\<close>.
\<close>

theorem nxsig_procmask_mask_laws:
  assumes "signal_h_ok c" and "tcb_sigprocmask (rtcb st) = M" and "mem p = S"
    and "oset \<noteq> Some p"
  shows "mask_of (nxsig_procmask c (SIG_BLOCK c) (Some p) oset mem st) = M OR S \<and>
         mask_of (nxsig_procmask c (SIG_UNBLOCK c) (Some p) oset mem st) = M AND NOT S \<and>
         mask_of (nxsig_procmask c (SIG_SETMASK c) (Some p) oset mem st) = S"
  using assms
  by (simp add: mask_nxsig_procmask procmask_switch_def store_oset_read signal_h_ok_def)

theorem nxsig_procmask_mask_laws_witness:
  "signal_h_ok example_h \<and> tcb_sigprocmask (rtcb example_state) = 5 \<and>
   example_mem 0 = 3 \<and> Some 1 \<noteq> Some (0 :: addr) \<and>
   mask_of (nxsig_procmask example_h 1 (Some 0) (Some 1) example_mem example_state) = 7 \<and>
   mask_of (nxsig_procmask example_h 2 (Some 0) (Some 1) example_mem example_state) = 4 \<and>
   mask_of (nxsig_procmask example_h 3 (Some 0) (Some 1) example_mem example_state) = 3"
proof -
  have ok: "signal_h_ok example_h"
    by (simp add: signal_h_ok_def example_h_def)
  have m: "tcb_sigprocmask (rtcb example_state) = 5"
    by (simp add: example_state_def)
  have s: "example_mem 0 = 3"
    by (simp add: example_mem_def)
  have d: "Some 1 \<noteq> Some (0 :: addr)"
    by simp
  from nxsig_procmask_mask_laws [where c = example_h and st = example_state
      and mem = example_mem and p = 0 and oset = "Some 1", OF ok m s d] ok m s d
  show ?thesis
    by (simp add: example_h_def)
qed

text \<open>
  Claim C2. For every initial mask, every supplied set and every mode other than
  \<open>SIG_BLOCK\<close>, \<open>SIG_UNBLOCK\<close> and \<open>SIG_SETMASK\<close>, \<open>nxsig_procmask\<close> returns \<open>-EINVAL\<close>
  and the mask of the task is the one it had before the call. This holds for every
  \<open>oset\<close>, also one that points to the object \<open>set\<close> points to.
\<close>

theorem nxsig_procmask_invalid_mode:
  assumes "how \<noteq> SIG_BLOCK c" and "how \<noteq> SIG_UNBLOCK c" and "how \<noteq> SIG_SETMASK c"
  shows "ret_of (nxsig_procmask c how (Some p) oset mem st) = - EINVAL c \<and>
         mask_of (nxsig_procmask c how (Some p) oset mem st) = tcb_sigprocmask (rtcb st)"
  using assms by (simp add: ret_nxsig_procmask mask_nxsig_procmask procmask_switch_def)

theorem nxsig_procmask_invalid_mode_witness:
  "99 \<noteq> SIG_BLOCK example_h \<and> 99 \<noteq> SIG_UNBLOCK example_h \<and> 99 \<noteq> SIG_SETMASK example_h \<and>
   ret_of (nxsig_procmask example_h 99 (Some 0) (Some 5) example_mem example_state) = - 22 \<and>
   mask_of (nxsig_procmask example_h 99 (Some 0) (Some 5) example_mem example_state) = 5"
proof -
  have h: "99 \<noteq> SIG_BLOCK example_h" "99 \<noteq> SIG_UNBLOCK example_h"
    "99 \<noteq> SIG_SETMASK example_h"
    by (simp_all add: example_h_def)
  from nxsig_procmask_invalid_mode [OF h, of 0 "Some 5" example_mem example_state] h
  show ?thesis
    by (simp add: example_h_def example_state_def)
qed




subsection \<open>The old mask and the query\<close>

text \<open>
  Claim C4. For every call of \<open>nxsig_procmask\<close> with \<open>oset\<close> not \<open>NULL\<close>, the value stored
  at \<open>oset\<close> is the mask the task had immediately before the call, whatever the
  mode, whether or not a new set is supplied, and also when the call fails. No
  other object of the caller is written.
\<close>

theorem nxsig_procmask_old_mask:
  "mem_of (nxsig_procmask c how sset (Some q) mem st) q = tcb_sigprocmask (rtcb st) \<and>
   mem_of (nxsig_procmask c how sset (Some q) mem st) = mem(q := tcb_sigprocmask (rtcb st))"
  by (simp add: mem_nxsig_procmask store_oset_def)

text \<open>
  Claim C6. For every mode and every initial mask, \<open>nxsig_procmask\<close> with \<open>set\<close> equal
  to \<open>NULL\<close> does not change the mask and returns \<open>OK\<close> after the capture of the old
  mask: the state at the return is the state at the call, but for the two calls
  recorded in the trace.
\<close>

theorem nxsig_procmask_query:
  "ret_of (nxsig_procmask c how None oset mem st) = OK \<and>
   mem_of (nxsig_procmask c how None oset mem st) =
     store_oset oset (tcb_sigprocmask (rtcb st)) mem \<and>
   kernel_of (nxsig_procmask c how None oset mem st) =
     st\<lparr>calls := calls st @ [Sched_lock, Sched_unlock]\<rparr> \<and>
   mask_of (nxsig_procmask c how None oset mem st) = tcb_sigprocmask (rtcb st)"
  by (simp add: nxsig_procmask_None result_defs)

text \<open>
  Claim C9. For every mode, valid or not, \<open>nxsig_procmask\<close> with \<open>set\<close> equal to \<open>NULL\<close>
  returns \<open>OK\<close>: the mode is looked at only when a new set is supplied.
\<close>

theorem nxsig_procmask_null_set_any_mode:
  "ret_of (nxsig_procmask c how None oset mem st) = OK"
  by (simp add: nxsig_procmask_None ret_of_def)

subsection \<open>The dispatcher\<close>

text \<open>
  Claim C5. For every call of \<open>nxsig_procmask\<close> with a new set, the dispatcher of
  pending signals runs exactly once before the return, after the critical section
  and under the scheduler lock, also when the mode is invalid; without a new set
  it does not run.
\<close>

theorem nxsig_procmask_dispatch_once:
  "dispatcher_runs st (kernel_of (nxsig_procmask c how sset oset mem st)) =
     (if sset = None then 0 else 1) \<and>
   calls (kernel_of (nxsig_procmask c how sset oset mem st)) =
     calls st @
     (if sset = None then [Sched_lock, Sched_unlock]
      else [Sched_lock, Enter_critical_section, Leave_critical_section,
        Nxsig_unmask_pendingsignal, Sched_unlock])"
  by (cases sset) (simp_all add: dispatcher_runs_def calls_nxsig_procmask)




text \<open>
  The scenario of the specification, with the signal at bit 5: from an empty mask
  and the signal pending, \<open>SIG_BLOCK\<close> blocks it and leaves it pending;
  \<open>SIG_SETMASK\<close> with the empty set then reports the old mask, empties the mask and
  delivers the signal.
\<close>

lemma spec_scenario:
  fixes st :: "32 state"
  assumes "tcb_sigprocmask (rtcb st) = 0" and "tcb_sigpending (rtcb st) = 32"
    and "mem p = 32" and "mem p' = 0" and "q \<noteq> p'"
  defines "r1 \<equiv> nxsig_procmask example_h 1 (Some p) None mem st"
  defines "r2 \<equiv> nxsig_procmask example_h 3 (Some p') (Some q) (mem_of r1) (kernel_of r1)"
  shows "mask_of r1 = 32" and "tcb_sigpending (rtcb (kernel_of r1)) = 32"
    and "\<not> delivered_by_call st (kernel_of r1) 5"
    and "mem_of r2 q = 32" and "mask_of r2 = 0"
    and "delivered_by_call (kernel_of r1) (kernel_of r2) 5"
    and "tcb_sigpending (rtcb (kernel_of r2)) = 0"
proof -
  show m1: "mask_of r1 = 32"
    using assms(1,3)
    by (simp add: r1_def mask_nxsig_procmask procmask_switch_def store_oset_read example_h_def)
  show p1: "tcb_sigpending (rtcb (kernel_of r1)) = 32"
    using assms(2) m1 by (simp add: r1_def pending_nxsig_procmask)
  show "\<not> delivered_by_call st (kernel_of r1) 5"
    using assms(2) m1 by (simp add: r1_def delivered_by_call_def delivered_nxsig_procmask)
  have e: "mem_of r1 = mem"
    by (simp add: r1_def mem_nxsig_procmask store_oset_def)
  show "mem_of r2 q = 32"
    using m1 by (simp add: r2_def mem_nxsig_procmask store_oset_read mask_of_def)
  show m2: "mask_of r2 = 0"
    using assms(4,5) e
    by (simp add: r2_def mask_nxsig_procmask procmask_switch_def store_oset_read example_h_def)
  show "delivered_by_call (kernel_of r1) (kernel_of r2) 5"
    using p1 m2 by (simp add: r2_def delivered_by_call_def delivered_nxsig_procmask)
  show "tcb_sigpending (rtcb (kernel_of r2)) = 0"
    using m2 by (simp add: r2_def pending_nxsig_procmask)
qed

subsection \<open>\<open>sigprocmask\<close>: return value and errno\<close>

text \<open>
  Claim C7. For every input, \<open>sigprocmask\<close> returns 0 exactly when \<open>nxsig_procmask\<close>
  succeeds; when \<open>nxsig_procmask\<close> fails it returns -1 and errno is \<open>EINVAL\<close>.
\<close>

theorem sigprocmask_return:
  assumes "0 < EINVAL c"
  shows "(ret_of (sigprocmask c how sset oset mem st) = 0 \<longleftrightarrow>
            ret_of (nxsig_procmask c how sset oset mem st) = OK) \<and>
         (ret_of (nxsig_procmask c how sset oset mem st) \<noteq> OK \<longrightarrow>
            ret_of (sigprocmask c how sset oset mem st) = - 1 \<and>
            errno (kernel_of (sigprocmask c how sset oset mem st)) = EINVAL c)"
proof -
  obtain r m' st' where r: "nxsig_procmask c how sset oset mem st = (r, m', st')"
    by (cases "nxsig_procmask c how sset oset mem st")
  have "r = OK \<or> r = - EINVAL c"
    using ret_nxsig_procmask [of c how sset oset mem st] r
    by (auto simp: ret_of_def split: option.splits if_splits)
  then show ?thesis
    using assms r
    by (auto simp: sigprocmask_def result_defs OK_def ERROR_def set_errno_def)
qed

theorem sigprocmask_return_witness:
  "0 < EINVAL example_h \<and>
   ret_of (nxsig_procmask example_h 99 (Some 0) None example_mem example_state) \<noteq> OK \<and>
   ret_of (sigprocmask example_h 99 (Some 0) None example_mem example_state) = - 1 \<and>
   errno (kernel_of (sigprocmask example_h 99 (Some 0) None example_mem example_state)) = 22 \<and>
   ret_of (nxsig_procmask example_h 3 (Some 0) None example_mem example_state) = OK \<and>
   ret_of (sigprocmask example_h 3 (Some 0) None example_mem example_state) = 0"
proof -
  have e: "0 < EINVAL example_h"
    by (simp add: example_h_def)
  have f: "ret_of (nxsig_procmask example_h 99 (Some 0) None example_mem example_state) \<noteq> OK"
    by (simp add: ret_nxsig_procmask example_h_def OK_def)
  have g: "ret_of (nxsig_procmask example_h 3 (Some 0) None example_mem example_state) = OK"
    by (simp add: ret_nxsig_procmask example_h_def)
  from sigprocmask_return [OF e, of 99 "Some 0" None example_mem example_state]
    sigprocmask_return [OF e, of 3 "Some 0" None example_mem example_state] e f g
  show ?thesis
    by (simp add: example_h_def)
qed

text \<open>
  Claim C10. For every call of \<open>sigprocmask\<close> in which \<open>nxsig_procmask\<close> returns a value
  that is not negative, errno is what it was before the call: \<open>set_errno\<close> is not
  called, and the result is that of \<open>nxsig_procmask\<close>.
\<close>

theorem sigprocmask_success_errno:
  assumes "0 \<le> ret_of (nxsig_procmask c how sset oset mem st)"
  shows "errno (kernel_of (sigprocmask c how sset oset mem st)) = errno st \<and>
         sigprocmask c how sset oset mem st = nxsig_procmask c how sset oset mem st"
proof -
  have "errno (kernel_of (nxsig_procmask c how sset oset mem st)) = errno st"
    by (cases sset)
      (simp_all add: nxsig_procmask_None nxsig_procmask_Some procmask_switch_def callee_defs
        result_defs Let_def)
  then show ?thesis
    using assms by (auto simp: sigprocmask_def result_defs split: prod.splits)
qed

theorem sigprocmask_success_errno_witness:
  "0 \<le> ret_of (nxsig_procmask example_h 3 (Some 0) None example_mem example_state) \<and>
   errno example_state = 11 \<and>
   errno (kernel_of (sigprocmask example_h 3 (Some 0) None example_mem example_state)) = 11"
proof -
  have h: "0 \<le> ret_of (nxsig_procmask example_h 3 (Some 0) None example_mem example_state)"
    by (simp add: ret_nxsig_procmask example_h_def OK_def)
  have e: "errno example_state = 11"
    by (simp add: example_state_def)
  from sigprocmask_success_errno [OF h] have
    "errno (kernel_of (sigprocmask example_h 3 (Some 0) None example_mem example_state)) =
       errno example_state" ..
  with h e show ?thesis
    by simp
qed

end
